theory Spec2Isabelle
  imports Complex_Main "HOL-Library.Multiset"
begin

section \<open>Python values handled by \<open>component_vis/multimodel_evaluation.py\<close>\<close>

text \<open>
  The module never inspects a model (a CP tensor) or the dataset \<open>X\<close>: both are
  opaque and are type variables \<open>'m\<close> and \<open>'d\<close> below.  The only values it
  looks into are the errors, which it compares with \<open><\<close> and, in
  \<open>sort_models_by_error\<close>, orders and converts with \<open>np.asarray(error).item()\<close>.

  A floating-point number is modelled by its value: not-a-number, the two
  infinities, or a finite real.  No arithmetic is performed on errors, only
  comparisons, and IEEE comparisons are exact on these values.

  A Python object also has an identity, and tuple comparison looks at it before it
  looks at the value.  That matters for NaN alone, the one value that is not \<open>==\<close> to
  itself: so a NaN carries the identity of the object that holds it (\<open>NaN i\<close> and
  \<open>NaN j\<close> with \<open>i \<noteq> j\<close> are two objects, as two calls of \<open>float('nan')\<close> give;
  \<open>np.nan\<close> returned twice is one object).  The comparisons \<open><\<close>, \<open>==\<close> and \<open><=\<close>
  ignore it.
\<close>

datatype pyfloat = NaN nat | NegInf | Fin real | PosInf

text \<open>\<open>a < b\<close> on floats: every comparison with NaN is false.\<close>

fun float_lt :: "pyfloat \<Rightarrow> pyfloat \<Rightarrow> bool" where
  "float_lt (NaN i) b = False"
| "float_lt a (NaN i) = False"
| "float_lt (Fin a) (Fin b) = (a < b)"
| "float_lt NegInf NegInf = False"
| "float_lt NegInf b = True"
| "float_lt a NegInf = False"
| "float_lt PosInf b = False"
| "float_lt a PosInf = True"

text \<open>\<open>a == b\<close> on floats: NaN is equal to nothing, itself included.\<close>

fun float_eq :: "pyfloat \<Rightarrow> pyfloat \<Rightarrow> bool" where
  "float_eq (NaN i) b = False"
| "float_eq a (NaN i) = False"
| "float_eq a b = (a = b)"

text \<open>\<open>a <= b\<close> on floats.\<close>

definition float_le :: "pyfloat \<Rightarrow> pyfloat \<Rightarrow> bool" where
  "float_le a b = (float_lt a b \<or> float_eq a b)"

text \<open>
  What an error function returns: a bare number (a Python or NumPy float), or a
  zero-dimensional labelled wrapper around one (an xarray object, as the comment in
  \<open>sort_models_by_error\<close> says happens for xarray datasets).
\<close>

datatype errval = Plain pyfloat | Boxed pyfloat

fun value_of :: "errval \<Rightarrow> pyfloat" where
  "value_of (Plain v) = v"
| "value_of (Boxed v) = v"

text \<open>
  \<open>if sse < lowest_sse\<close>: the comparison of two errors, read as a truth value.  A
  zero-dimensional wrapper compares as the number it holds.
\<close>

definition py_lt :: "errval \<Rightarrow> errval \<Rightarrow> bool" where
  "py_lt a b = float_lt (value_of a) (value_of b)"

definition py_eq :: "errval \<Rightarrow> errval \<Rightarrow> bool" where
  "py_eq a b = float_eq (value_of a) (value_of b)"

text \<open>Whether the value of an error is NaN.\<close>

fun isnan :: "pyfloat \<Rightarrow> bool" where
  "isnan (NaN i) = True"
| "isnan a = False"

definition is_nan :: "errval \<Rightarrow> bool" where
  "is_nan e = isnan (value_of e)"

text \<open>
  The equality test of tuple comparison (and of every container comparison): one and
  the same object, or \<open>==\<close>.  Two references to one object whose value is not NaN
  are \<open>==\<close> anyway.
\<close>

definition py_is_or_eq :: "errval \<Rightarrow> errval \<Rightarrow> bool" where
  "py_is_or_eq a b = ((is_nan a \<and> a = b) \<or> py_eq a b)"

text \<open>\<open>np.asarray(error).item()\<close>: the plain float held by the error.\<close>

definition asarray_item :: "errval \<Rightarrow> errval" where
  "asarray_item e = Plain (value_of e)"

fun is_plain :: "errval \<Rightarrow> bool" where
  "is_plain (Plain v) = True"
| "is_plain (Boxed v) = False"

subsection \<open>Callables\<close>

text \<open>
  \<open>error_function\<close> and \<open>similarity_metric\<close> are supplied by the caller and may do
  anything.  A callable takes its argument tuple and the state of the world \<open>'w\<close> it
  can observe and change, and returns its result with the new state.  The module's
  functions thread that state through their calls in program order.  They catch
  nothing: a call that raises ends the function without a result, so the results
  described below are those of runs in which every call returns.
\<close>

type_synonym ('a, 'r, 'w) callable = "'a \<Rightarrow> 'w \<Rightarrow> 'r \<times> 'w"

text \<open>
  A pure function \<open>f\<close> as a callable whose only effect is to append the arguments of
  each call to a log: the log then tells how often, with what and in which order the
  callable was called.
\<close>

definition traced :: "('a \<Rightarrow> 'r) \<Rightarrow> ('a, 'r, 'a list) callable" where
  "traced f args calls = (f args, calls @ [args])"

text \<open>
  \<open>if error_function is None: error_function = model_evaluation.relative_sse\<close> (and
  the same for \<open>similarity_metric\<close> and \<open>factor_match_score\<close>).  The defaults are
  imported from sibling modules, so they are parameters of the functions below.
\<close>

definition or_default :: "'f \<Rightarrow> 'f option \<Rightarrow> 'f" where
  "or_default dflt given = (case given of None \<Rightarrow> dflt | Some f \<Rightarrow> f)"

section \<open>\<open>similarity_evaluation\<close>\<close>

text \<open>
  The list comprehension
  \<open>[similarity_metric(cp_tensor, c, **kwargs) for c in comparison_cp_tensors]\<close>.
\<close>

fun comprehension ::
  "('m \<times> 'm \<times> 'k, 'v, 'w) callable \<Rightarrow> 'm \<Rightarrow> 'k \<Rightarrow> 'm list \<Rightarrow> 'w \<Rightarrow> 'v list \<times> 'w" where
  "comprehension similarity_metric cp_tensor kwargs [] w = ([], w)"
| "comprehension similarity_metric cp_tensor kwargs (comparison_cp_tensor # rest) w =
     (let (v, w1) = similarity_metric (cp_tensor, comparison_cp_tensor, kwargs) w;
          (vs, w2) = comprehension similarity_metric cp_tensor kwargs rest w1
      in (v # vs, w2))"

definition similarity_evaluation ::
  "('m \<times> 'm \<times> 'k, 'v, 'w) callable \<Rightarrow> 'm \<Rightarrow> 'm list \<Rightarrow>
   ('m \<times> 'm \<times> 'k, 'v, 'w) callable option \<Rightarrow> 'k \<Rightarrow> 'w \<Rightarrow> 'v list \<times> 'w" where
  "similarity_evaluation factor_match_score cp_tensor comparison_cp_tensors similarity_metric kwargs w =
     (let similarity_metric = or_default factor_match_score similarity_metric
      in comprehension similarity_metric cp_tensor kwargs comparison_cp_tensors w)"

section \<open>\<open>get_model_with_lowest_error\<close>\<close>

text \<open>The local variables of the function, and the world its calls act on.\<close>

record ('m, 'w) locals =
  selected_cp_tensor :: "'m option"
  selected_index :: "nat option"
  lowest_sse :: errval
  all_sse :: "errval list"
  world :: 'w

text \<open>One iteration of \<open>for i, cp_tensor in enumerate(cp_tensors)\<close>.\<close>

definition loop_body ::
  "('m \<times> 'd, errval, 'w) callable \<Rightarrow> 'd \<Rightarrow> nat \<times> 'm \<Rightarrow> ('m, 'w) locals \<Rightarrow> ('m, 'w) locals" where
  "loop_body error_function X p s =
     (case p of (i, cp_tensor) \<Rightarrow>
        (let (sse, w1) = error_function (cp_tensor, X) (world s);
             s1 = s\<lparr>all_sse := all_sse s @ [sse], world := w1\<rparr>
         in if py_lt sse (lowest_sse s1)
            then s1\<lparr>selected_cp_tensor := Some cp_tensor, lowest_sse := sse,
                    selected_index := Some i\<rparr>
            else s1))"

definition get_model_with_lowest_error ::
  "('m \<times> 'd, errval, 'w) callable \<Rightarrow> 'm list \<Rightarrow> 'd \<Rightarrow>
   ('m \<times> 'd, errval, 'w) callable option \<Rightarrow> 'w \<Rightarrow>
   ('m option \<times> nat option \<times> errval list) \<times> 'w" where
  "get_model_with_lowest_error relative_sse cp_tensors X error_function w =
     (let error_function = or_default relative_sse error_function;
          s = fold (loop_body error_function X) (enumerate 0 cp_tensors)
                \<lparr>selected_cp_tensor = None, selected_index = None,
                 lowest_sse = Plain PosInf, all_sse = [], world = w\<rparr>
      in ((selected_cp_tensor s, selected_index s, all_sse s), world s))"

section \<open>\<open>sort_models_by_error\<close>\<close>

subsection \<open>Comparing and sorting the \<open>(error, cp_tensor)\<close> pairs\<close>

text \<open>
  A comparison of two Python objects either gives a truth value or raises.
\<close>

datatype py_exception = TypeError | ValueError

type_synonym 'a comparison = "'a \<Rightarrow> 'a \<Rightarrow> py_exception + bool"

text \<open>
  \<open>sorted(zip(errors, cp_tensors))\<close> orders two-element tuples with \<open><\<close>.  Python
  looks for the first position where the tuples are not equal and compares the
  entries there: when the errors are equal (one object, or \<open>==\<close>) the models are
  tested for equality, two equal models make the tuples equal (so neither is smaller),
  and two unequal models are compared with \<open><\<close>.  How models compare is up to their type,
  so \<open>model_eq\<close> (identical or \<open>==\<close>) and \<open>model_lt\<close> (\<open><\<close>) are parameters;
  either may raise, as \<open><\<close> does on objects that define no ordering.
\<close>

definition tuple_lt ::
  "'m comparison \<Rightarrow> 'm comparison \<Rightarrow> (errval \<times> 'm) comparison" where
  "tuple_lt model_eq model_lt a b =
     (case (a, b) of ((e1, m1), (e2, m2)) \<Rightarrow>
        if py_is_or_eq e1 e2
        then (case model_eq m1 m2 of
                Inl exn \<Rightarrow> Inl exn
              | Inr True \<Rightarrow> Inr False
              | Inr False \<Rightarrow> model_lt m1 m2)
        else Inr (py_lt e1 e2))"

text \<open>
  The built-in \<open>sorted\<close>: a stable sort that uses only \<open><\<close> between elements and
  fails as soon as a comparison raises.  Python promises no more than that, and on
  comparisons that succeed and are consistent every stable sort returns the same
  list.  The model is insertion sort; as in CPython, each comparison asks whether the
  element that stood later in the input is smaller than one that stood earlier.
  Which pairs are compared, and in which order, differs between sorting algorithms
  (CPython's is a merge sort over runs), so on comparisons that raise for some pairs
  only, or that are inconsistent, the two may differ.  The properties below are stated
  where that cannot matter: where every comparison of two pairs succeeds, where the
  conclusion holds of any reordering, where every sort must compare a failing pair,
  or on lists of at most three pairs on which the comparisons made are the same.
\<close>

fun insort_py :: "'a comparison \<Rightarrow> 'a \<Rightarrow> 'a list \<Rightarrow> py_exception + 'a list" where
  "insort_py lt x [] = Inr [x]"
| "insort_py lt x (y # ys) =
     (case lt y x of
        Inl exn \<Rightarrow> Inl exn
      | Inr True \<Rightarrow> (case insort_py lt x ys of Inl exn \<Rightarrow> Inl exn | Inr zs \<Rightarrow> Inr (y # zs))
      | Inr False \<Rightarrow> Inr (x # y # ys))"

fun sorted_py :: "'a comparison \<Rightarrow> 'a list \<Rightarrow> py_exception + 'a list" where
  "sorted_py lt [] = Inr []"
| "sorted_py lt (x # xs) =
     (case sorted_py lt xs of Inl exn \<Rightarrow> Inl exn | Inr ys \<Rightarrow> insort_py lt x ys)"

subsection \<open>The function\<close>

definition sort_models_by_error ::
  "('m \<times> 'd, errval, 'w) callable \<Rightarrow> 'm comparison \<Rightarrow> 'm comparison \<Rightarrow> 'm list \<Rightarrow> 'd \<Rightarrow>
   ('m \<times> 'd, errval, 'w) callable option \<Rightarrow> 'w \<Rightarrow>
   (py_exception + 'm list \<times> errval list) \<times> 'w" where
  "sort_models_by_error relative_sse model_eq model_lt cp_tensors X error_function w =
     (let (r, w1) = get_model_with_lowest_error relative_sse cp_tensors X error_function w;
          errors = snd (snd r)
      in case sorted_py (tuple_lt model_eq model_lt) (zip errors cp_tensors) of
           Inl exn \<Rightarrow> (Inl exn, w1)
         | Inr sorted_tensors \<Rightarrow>
             (Inr (map (\<lambda>(error, cp_tensor). cp_tensor) sorted_tensors,
                   map (\<lambda>(error, cp_tensor). asarray_item error) sorted_tensors), w1))"

section \<open>Notions used to state the properties\<close>

text \<open>\<open>a <= b\<close> on errors; a sequence is non-decreasing when it holds between each
  element and every later one.\<close>

definition py_le :: "errval \<Rightarrow> errval \<Rightarrow> bool" where
  "py_le a b = float_le (value_of a) (value_of b)"

definition non_decreasing :: "errval list \<Rightarrow> bool" where
  "non_decreasing es = sorted_wrt py_le es"

text \<open>No comparison between two of the pairs raises.\<close>

definition never_raises :: "'a comparison \<Rightarrow> 'a list \<Rightarrow> bool" where
  "never_raises lt ps = list_all (\<lambda>p. list_all (\<lambda>q. \<not> isl (lt p q)) ps) ps"

text \<open>
  The error sequence of a model list, as the specification words it: the value of
  \<open>error_function(models[i], dataset)\<close> for every index \<open>i\<close>, the calls made one
  after the other in input order.
\<close>

fun collect_errors ::
  "('m \<times> 'd, errval, 'w) callable \<Rightarrow> 'd \<Rightarrow> 'm list \<Rightarrow> 'w \<Rightarrow> errval list \<times> 'w" where
  "collect_errors error_function dataset [] w = ([], w)"
| "collect_errors error_function dataset (model # models) w =
     (let (e, w1) = error_function (model, dataset) w;
          (es, w2) = collect_errors error_function dataset models w1
      in (e # es, w2))"



section \<open>Example inputs\<close>

text \<open>
  Models are named by strings in the examples, and the dataset is the unit value.
  Objects of a class that defines neither \<open>__eq__\<close> nor \<open>__lt__\<close> are equal only to
  themselves, and \<open><\<close> between them raises \<open>TypeError\<close>.
\<close>

definition identity_eq :: "string comparison" where
  "identity_eq a b = Inr (a = b)"

definition unordered_lt :: "string comparison" where
  "unordered_lt a b = Inl TypeError"

text \<open>Models A, B, C, D with the errors 5, 2, 8, 2.\<close>

definition known_errors :: "string \<times> unit \<Rightarrow> errval" where
  "known_errors a =
     (case a of (m, X) \<Rightarrow>
        Plain (Fin (if m = ''A'' then 5 else if m = ''B'' then 2 else if m = ''C'' then 8 else 2)))"

text \<open>Runs that all diverged: the error of A is NaN, every other error is infinite.\<close>

definition diverged_errors :: "string \<times> unit \<Rightarrow> errval" where
  "diverged_errors a = (case a of (m, X) \<Rightarrow> if m = ''A'' then Plain (NaN 0) else Plain PosInf)"

text \<open>The error of A is NaN, every other error is 1.\<close>

definition nan_then_one :: "string \<times> unit \<Rightarrow> errval" where
  "nan_then_one a = (case a of (m, X) \<Rightarrow> if m = ''A'' then Plain (NaN 0) else Plain (Fin 1))"

text \<open>Every model has the error 1.\<close>

definition constant_error :: "string \<times> unit \<Rightarrow> errval" where
  "constant_error a = Plain (Fin 1)"

text \<open>Models A, B, C, D with the errors 30, 10, 40, 20, bare and boxed.\<close>

definition shuffled_errors :: "string \<times> unit \<Rightarrow> pyfloat" where
  "shuffled_errors a =
     (case a of (m, X) \<Rightarrow>
        Fin (if m = ''A'' then 30 else if m = ''B'' then 10 else if m = ''C'' then 40 else 20))"

definition bare_shuffled_errors :: "string \<times> unit \<Rightarrow> errval" where
  "bare_shuffled_errors a = Plain (shuffled_errors a)"

definition boxed_shuffled_errors :: "string \<times> unit \<Rightarrow> errval" where
  "boxed_shuffled_errors a = Boxed (shuffled_errors a)"

text \<open>
  Models A, B, C that compare by their letters, and models where \<open><\<close> is defined
  between neighbours only: between A and C it raises \<open>TypeError\<close>.
\<close>

definition letter :: "string \<Rightarrow> nat" where
  "letter m = (if m = ''A'' then 0 else if m = ''B'' then 1 else if m = ''C'' then 2 else 3)"




text \<open>Every error is NaN: the one object \<open>np.nan\<close>, or a new object at every call.\<close>

definition shared_nan :: "string \<times> unit \<Rightarrow> errval" where
  "shared_nan a = Plain (NaN 0)"

definition fresh_nan :: "string \<times> unit \<Rightarrow> errval" where
  "fresh_nan a = (case a of (m, X) \<Rightarrow> Plain (NaN (letter m)))"

text \<open>
  Similarity metrics that return their first and their second argument, one that
  also reads the world (a number) and leaves it as it is, and one that counts its
  calls in the world.
\<close>

definition first_argument :: "string \<times> string \<times> unit \<Rightarrow> string" where
  "first_argument a = (case a of (cp_tensor, comparison_cp_tensor, kwargs) \<Rightarrow> cp_tensor)"

definition reading_metric :: "(string \<times> string \<times> unit, string, nat) callable" where
  "reading_metric a w = (case a of (cp_tensor, comparison_cp_tensor, kwargs) \<Rightarrow>
     (if w = 0 then cp_tensor else comparison_cp_tensor, w))"

definition counting_metric :: "(string \<times> string \<times> unit, string, nat) callable" where
  "counting_metric a w = (case a of (cp_tensor, comparison_cp_tensor, kwargs) \<Rightarrow>
     (cp_tensor, Suc w))"

text \<open>A similarity metric that returns its second argument.\<close>

definition second_argument :: "string \<times> string \<times> unit \<Rightarrow> string" where
  "second_argument a = (case a of (cp_tensor, comparison_cp_tensor, kwargs) \<Rightarrow> comparison_cp_tensor)"

section \<open>Facts about the comparisons\<close>

lemma float_lt_irrefl: "\<not> float_lt a a"
  by (cases a) simp_all

lemma float_lt_trans: "float_lt a b \<Longrightarrow> float_lt b c \<Longrightarrow> float_lt a c"
  by (cases a; cases b; cases c) simp_all

lemma float_lt_asym: "float_lt a b \<Longrightarrow> \<not> float_lt b a"
  by (cases a; cases b) simp_all

lemma float_eq_lt: "float_eq a b \<Longrightarrow> float_lt b c \<Longrightarrow> float_lt a c"
  by (cases a; cases b; cases c) simp_all

lemma float_lt_not_eq: "float_lt a b \<Longrightarrow> \<not> float_eq b a"
  by (cases a; cases b) simp_all

lemma float_le_trans: "float_le a b \<Longrightarrow> float_le b c \<Longrightarrow> float_le a c"
  unfolding float_le_def by (cases a; cases b; cases c) auto

lemma float_trichotomy: "\<not> isnan a \<Longrightarrow> \<not> isnan b \<Longrightarrow> \<not> float_lt a b \<Longrightarrow> float_le b a"
  unfolding float_le_def by (cases a; cases b) auto

lemma float_eq_le: "float_eq a b \<Longrightarrow> float_le a b \<and> float_le b a"
  unfolding float_le_def by (cases a; cases b) auto

lemma py_lt_irrefl: "\<not> py_lt a a"
  by (simp add: py_lt_def float_lt_irrefl)

lemma py_lt_trans: "py_lt a b \<Longrightarrow> py_lt b c \<Longrightarrow> py_lt a c"
  unfolding py_lt_def by (rule float_lt_trans)

lemma py_lt_asym: "py_lt a b \<Longrightarrow> \<not> py_lt b a"
  unfolding py_lt_def by (rule float_lt_asym)

lemma py_eq_lt: "py_eq a b \<Longrightarrow> py_lt b c \<Longrightarrow> py_lt a c"
  unfolding py_lt_def py_eq_def by (rule float_eq_lt)

lemma py_lt_not_eq: "py_lt a b \<Longrightarrow> \<not> py_eq b a"
  unfolding py_lt_def py_eq_def by (rule float_lt_not_eq)

lemma py_le_trans: "py_le a b \<Longrightarrow> py_le b c \<Longrightarrow> py_le a c"
  unfolding py_le_def by (rule float_le_trans)

lemma py_is_or_eq_no_nan: "\<not> is_nan a \<Longrightarrow> py_is_or_eq a b = py_eq a b"
  by (simp add: py_is_or_eq_def)


lemma tuple_lt_True_le:
  "tuple_lt meq mlt a b = Inr True \<Longrightarrow> \<not> is_nan (fst a) \<Longrightarrow> py_le (fst a) (fst b)"
  by (cases a; cases b)
     (auto simp: tuple_lt_def py_is_or_eq_no_nan py_le_def py_eq_def py_lt_def float_le_def
           split: if_splits)

lemma tuple_lt_False_le:
  "tuple_lt meq mlt a b = Inr False \<Longrightarrow> \<not> is_nan (fst a) \<Longrightarrow> \<not> is_nan (fst b) \<Longrightarrow>
   py_le (fst b) (fst a)"
  by (cases a; cases b)
     (auto simp: tuple_lt_def py_is_or_eq_no_nan py_le_def py_eq_def py_lt_def is_nan_def
           split: if_splits dest: float_eq_le float_trichotomy)

section \<open>The loop of \<open>get_model_with_lowest_error\<close>\<close>

lemma collect_errors_length: "length (fst (collect_errors ef X ms w)) = length ms"
  by (induction ms arbitrary: w) (simp_all add: Let_def case_prod_beta)

lemma loop_body_step:
  "ef (m, X) (world s) = (e, w1) \<Longrightarrow> s1 = loop_body ef X (n, m) s \<Longrightarrow>
   world s1 = w1 \<and> all_sse s1 = all_sse s @ [e] \<and>
   (if py_lt e (lowest_sse s)
    then selected_cp_tensor s1 = Some m \<and> selected_index s1 = Some n \<and> lowest_sse s1 = e
    else selected_cp_tensor s1 = selected_cp_tensor s \<and> selected_index s1 = selected_index s
       \<and> lowest_sse s1 = lowest_sse s)"
  by (simp add: loop_body_def Let_def)

lemma fold_keeps_selection:
  "\<forall>e\<in>set (fst (collect_errors ef X ms (world s))). \<not> py_lt e (lowest_sse s) \<Longrightarrow>
   s' = fold (loop_body ef X) (enumerate n ms) s \<Longrightarrow>
   selected_cp_tensor s' = selected_cp_tensor s \<and> selected_index s' = selected_index s
   \<and> lowest_sse s' = lowest_sse s"
proof (induction ms arbitrary: n s s')
  case Nil
  then show ?case by simp
next
  case (Cons m ms)
  obtain e w1 where call: "ef (m, X) (world s) = (e, w1)" by (cases "ef (m, X) (world s)")
  define s1 where "s1 = loop_body ef X (n, m) s"
  note step = loop_body_step[OF call s1_def]
  have es: "fst (collect_errors ef X (m # ms) (world s)) = e # fst (collect_errors ef X ms w1)"
    using call by (simp add: case_prod_beta)
  have "\<not> py_lt e (lowest_sse s)" using Cons.prems(1) es by simp
  then have keep: "selected_cp_tensor s1 = selected_cp_tensor s \<and> selected_index s1 = selected_index s
       \<and> lowest_sse s1 = lowest_sse s"
    using step by simp
  have "s' = fold (loop_body ef X) (enumerate (Suc n) ms) s1"
    using Cons.prems(2) by (simp add: s1_def)
  moreover have "\<forall>e\<in>set (fst (collect_errors ef X ms (world s1))). \<not> py_lt e (lowest_sse s1)"
    using Cons.prems(1) keep es step by simp
  ultimately show ?case using Cons.IH[of s1 s' "Suc n"] keep by simp
qed

lemma fold_selects_first_minimum:
  "es = fst (collect_errors ef X ms (world s)) \<Longrightarrow>
   \<exists>e\<in>set es. py_lt e (lowest_sse s) \<Longrightarrow>
   s' = fold (loop_body ef X) (enumerate n ms) s \<Longrightarrow>
   \<exists>i<length ms. selected_cp_tensor s' = Some (ms ! i) \<and> selected_index s' = Some (n + i)
      \<and> lowest_sse s' = es ! i
      \<and> py_lt (es ! i) (lowest_sse s)
      \<and> (\<forall>j<length ms. \<not> py_lt (es ! j) (es ! i))
      \<and> (\<forall>j<i. \<not> py_eq (es ! j) (es ! i))"
proof (induction ms arbitrary: n s s' es)
  case Nil
  then show ?case by simp
next
  case (Cons m ms)
  obtain e w1 where call: "ef (m, X) (world s) = (e, w1)" by (cases "ef (m, X) (world s)")
  define s1 where "s1 = loop_body ef X (n, m) s"
  define es1 where "es1 = fst (collect_errors ef X ms (world s1))"
  note step = loop_body_step[OF call s1_def]
  have es: "es = e # es1"
    using call Cons.prems(1) step by (simp add: case_prod_beta es1_def)
  have rest: "s' = fold (loop_body ef X) (enumerate (Suc n) ms) s1"
    using Cons.prems(3) by (simp add: s1_def)
  show ?case
  proof (cases "\<exists>e'\<in>set es1. py_lt e' (lowest_sse s1)")
    case True
    from Cons.IH[OF es1_def True rest] obtain i where i: "i < length ms"
      and sel: "selected_cp_tensor s' = Some (ms ! i)" "selected_index s' = Some (Suc n + i)"
        "lowest_sse s' = es1 ! i"
      and below: "py_lt (es1 ! i) (lowest_sse s1)"
      and least: "\<forall>j<length ms. \<not> py_lt (es1 ! j) (es1 ! i)"
      and first: "\<forall>j<i. \<not> py_eq (es1 ! j) (es1 ! i)"
      by blast
    have below_s: "py_lt (es1 ! i) (lowest_sse s)"
    proof (cases "py_lt e (lowest_sse s)")
      case True
      then have "lowest_sse s1 = e" using step by simp
      with below True show ?thesis by (auto intro: py_lt_trans)
    next
      case False
      then show ?thesis using step below by simp
    qed
    have head_not_lt: "\<not> py_lt e (es1 ! i)"
    proof (cases "py_lt e (lowest_sse s)")
      case True
      then have "lowest_sse s1 = e" using step by simp
      with below show ?thesis by (auto dest: py_lt_asym)
    next
      case False
      then show ?thesis using below_s by (auto dest: py_lt_trans)
    qed
    have head_not_eq: "\<not> py_eq e (es1 ! i)"
    proof (cases "py_lt e (lowest_sse s)")
      case True
      then have "lowest_sse s1 = e" using step by simp
      with below show ?thesis by (auto dest: py_lt_not_eq)
    next
      case False
      then show ?thesis using below_s by (auto dest: py_eq_lt)
    qed
    have "Suc i < length (m # ms)" using i by simp
    moreover have "selected_cp_tensor s' = Some ((m # ms) ! Suc i)" using sel by simp
    moreover have "selected_index s' = Some (n + Suc i)" using sel by simp
    moreover have "lowest_sse s' = es ! Suc i" using sel es by simp
    moreover have "py_lt (es ! Suc i) (lowest_sse s)" using below_s es by simp
    moreover have "\<forall>j<length (m # ms). \<not> py_lt (es ! j) (es ! Suc i)"
      using least head_not_lt es by (simp add: All_less_Suc2)
    moreover have "\<forall>j<Suc i. \<not> py_eq (es ! j) (es ! Suc i)"
      using first head_not_eq es by (simp add: All_less_Suc2)
    ultimately show ?thesis by blast
  next
    case False
    then have none: "\<forall>e'\<in>set (fst (collect_errors ef X ms (world s1))). \<not> py_lt e' (lowest_sse s1)"
      by (simp add: es1_def)
    note kept = fold_keeps_selection[OF none rest]
    have head: "py_lt e (lowest_sse s)"
    proof (rule ccontr)
      assume no: "\<not> py_lt e (lowest_sse s)"
      then have "lowest_sse s1 = lowest_sse s" using step by simp
      with False Cons.prems(2) no es show False by auto
    qed
    then have s1: "selected_cp_tensor s1 = Some m" "selected_index s1 = Some n" "lowest_sse s1 = e"
      using step by simp_all
    have len: "length es1 = length ms"
      by (simp add: es1_def collect_errors_length)
    have "0 < length (m # ms)" by simp
    moreover have "selected_cp_tensor s' = Some ((m # ms) ! 0)" using kept s1 by simp
    moreover have "selected_index s' = Some (n + 0)" using kept s1 by simp
    moreover have "lowest_sse s' = es ! 0" using kept s1 es by simp
    moreover have "py_lt (es ! 0) (lowest_sse s)" using head es by simp
    moreover have "\<forall>j<length (m # ms). \<not> py_lt (es ! j) (es ! 0)"
      using False s1 es len by (simp add: All_less_Suc2 py_lt_irrefl)
    moreover have "\<forall>j<(0::nat). \<not> py_eq (es ! j) (es ! 0)" by simp
    ultimately show ?thesis by blast
  qed
qed

lemma fold_collects:
  "fold (loop_body ef X) (enumerate n ms) s = s' \<Longrightarrow>
   all_sse s' = all_sse s @ fst (collect_errors ef X ms (world s))
   \<and> world s' = snd (collect_errors ef X ms (world s))"
  by (induction ms arbitrary: n s s')
     (auto simp add: loop_body_def Let_def split: prod.splits)

lemma collect_errors_traced:
  "collect_errors (traced f) X ms calls = (map (\<lambda>m. f (m, X)) ms, calls @ map (\<lambda>m. (m, X)) ms)"
  by (induction ms arbitrary: calls) (simp_all add: traced_def)

lemma selector_collects:
  "get_model_with_lowest_error rs ms X efo w = ((sel, idx, errors), w1) \<Longrightarrow>
   (errors, w1) = collect_errors (or_default rs efo) X ms w"
  using fold_collects[of "or_default rs efo" X 0 ms
      "\<lparr>selected_cp_tensor = None, selected_index = None, lowest_sse = Plain PosInf,
        all_sse = [], world = w\<rparr>"]
  by (simp add: get_model_with_lowest_error_def Let_def prod_eq_iff)

lemma selector_traced:
  "or_default rs efo = traced f \<Longrightarrow>
   \<exists>sel idx. get_model_with_lowest_error rs ms X efo calls =
     ((sel, idx, map (\<lambda>m. f (m, X)) ms), calls @ map (\<lambda>m. (m, X)) ms)"
proof -
  assume d: "or_default rs efo = traced f"
  obtain sel idx errors w1 where r: "get_model_with_lowest_error rs ms X efo calls = ((sel, idx, errors), w1)"
    by (simp add: get_model_with_lowest_error_def Let_def)
  from selector_collects[OF r] d have "errors = map (\<lambda>m. f (m, X)) ms" "w1 = calls @ map (\<lambda>m. (m, X)) ms"
    by (simp_all add: collect_errors_traced)
  with r show ?thesis by blast
qed

lemma selector_locals:
  "get_model_with_lowest_error rs ms X efo w = ((sel, idx, errors), w1) \<Longrightarrow>
   \<exists>s'. s' = fold (loop_body (or_default rs efo) X) (enumerate 0 ms)
          \<lparr>selected_cp_tensor = None, selected_index = None, lowest_sse = Plain PosInf,
           all_sse = [], world = w\<rparr>
      \<and> sel = selected_cp_tensor s' \<and> idx = selected_index s'"
  by (auto simp add: get_model_with_lowest_error_def Let_def)

section \<open>Facts about \<open>sorted\<close>\<close>

lemma insort_py_mset: "insort_py lt x ys = Inr zs \<Longrightarrow> mset zs = add_mset x (mset ys)"
  by (induction ys arbitrary: zs) (auto split: sum.splits bool.splits if_splits)

lemma sorted_py_mset: "sorted_py lt xs = Inr ys \<Longrightarrow> mset ys = mset xs"
  by (induction xs arbitrary: ys) (auto split: sum.splits dest: insort_py_mset)

lemma sorted_py_set: "sorted_py lt xs = Inr ys \<Longrightarrow> set ys = set xs"
  by (metis sorted_py_mset mset_eq_setD)

lemma insort_py_succeeds:
  "\<forall>y\<in>set ys. \<not> isl (lt y x) \<Longrightarrow> \<exists>zs. insort_py lt x ys = Inr zs"
proof (induction ys)
  case Nil
  then show ?case by simp
next
  case (Cons y ys)
  then obtain b where b: "lt y x = Inr b" by (cases "lt y x") auto
  from Cons obtain zs where "insort_py lt x ys = Inr zs" by auto
  with b show ?case by (cases b) simp_all
qed

lemma sorted_py_succeeds:
  "\<forall>p\<in>set xs. \<forall>q\<in>set xs. \<not> isl (lt p q) \<Longrightarrow> \<exists>ys. sorted_py lt xs = Inr ys"
proof (induction xs)
  case Nil
  then show ?case by simp
next
  case (Cons x xs)
  then obtain ys where ys: "sorted_py lt xs = Inr ys" by auto
  then have "set ys = set xs" by (rule sorted_py_set)
  with Cons.prems have "\<forall>y\<in>set ys. \<not> isl (lt y x)" by simp
  then obtain zs where "insort_py lt x ys = Inr zs"
    using insort_py_succeeds[of ys lt x] by blast
  with ys show ?case by simp
qed

lemma insort_py_sorted:
  "insort_py (tuple_lt meq mlt) x ys = Inr zs \<Longrightarrow> sorted_wrt py_le (map fst ys) \<Longrightarrow>
   \<not> is_nan (fst x) \<Longrightarrow> \<forall>y\<in>set ys. \<not> is_nan (fst y) \<Longrightarrow>
   sorted_wrt py_le (map fst zs)"
proof (induction ys arbitrary: zs)
  case Nil
  then show ?case by auto
next
  case (Cons y ys)
  show ?case
  proof (cases "tuple_lt meq mlt y x")
    case (Inl exn)
    with Cons.prems(1) show ?thesis by simp
  next
    case (Inr b)
    show ?thesis
    proof (cases b)
      case True
      with Inr Cons.prems(1) obtain zs' where zs': "insort_py (tuple_lt meq mlt) x ys = Inr zs'"
        and zs: "zs = y # zs'" by (auto split: sum.splits)
      have "sorted_wrt py_le (map fst zs')"
        using Cons.IH[OF zs'] Cons.prems by simp
      moreover have "set zs' = insert x (set ys)"
        using insort_py_mset[OF zs'] by (metis mset_eq_setD set_mset_add_mset_insert set_mset_mset)
      moreover have "py_le (fst y) (fst x)"
        using Inr True Cons.prems(4) by (auto dest: tuple_lt_True_le)
      ultimately show ?thesis using Cons.prems(2) zs by auto
    next
      case False
      with Inr Cons.prems(1) have zs: "zs = x # y # ys" by simp
      have xy: "py_le (fst x) (fst y)"
        using Inr False Cons.prems(3,4) by (auto dest: tuple_lt_False_le)
      then have "\<forall>z\<in>set ys. py_le (fst x) (fst z)"
        using Cons.prems(2) by (auto intro: py_le_trans)
      with xy Cons.prems(2) zs show ?thesis by auto
    qed
  qed
qed

lemma sorted_py_sorted:
  "sorted_py (tuple_lt meq mlt) xs = Inr ys \<Longrightarrow> \<forall>x\<in>set xs. \<not> is_nan (fst x) \<Longrightarrow>
   sorted_wrt py_le (map fst ys)"
proof (induction xs arbitrary: ys)
  case Nil
  then show ?case by simp
next
  case (Cons x xs)
  from Cons.prems(1) obtain ys' where ys': "sorted_py (tuple_lt meq mlt) xs = Inr ys'"
    and ins: "insort_py (tuple_lt meq mlt) x ys' = Inr ys" by (auto split: sum.splits)
  have "set ys' = set xs" using ys' by (rule sorted_py_set)
  with Cons.IH[OF ys'] Cons.prems(2) insort_py_sorted[OF ins] show ?case by simp
qed






section \<open>\<open>sort_models_by_error\<close> and \<open>similarity_evaluation\<close> unfolded\<close>

lemma sort_unfold:
  "collect_errors (or_default rs efo) X ms w = (errors, w1) \<Longrightarrow>
   sort_models_by_error rs meq mlt ms X efo w =
     (case sorted_py (tuple_lt meq mlt) (zip errors ms) of
        Inl exn \<Rightarrow> (Inl exn, w1)
      | Inr st \<Rightarrow> (Inr (map snd st, map (\<lambda>p. asarray_item (fst p)) st), w1))"
proof -
  assume c: "collect_errors (or_default rs efo) X ms w = (errors, w1)"
  obtain sel idx errors' w1' where r: "get_model_with_lowest_error rs ms X efo w = ((sel, idx, errors'), w1')"
    by (simp add: get_model_with_lowest_error_def Let_def)
  from selector_collects[OF r] c have "errors' = errors" "w1' = w1" by simp_all
  with r show ?thesis
    by (simp add: sort_models_by_error_def case_prod_beta snd_def[symmetric] fst_def[symmetric]
        split: sum.splits)
qed

lemma sort_success:
  "sort_models_by_error rs meq mlt ms X efo w = (Inr (sm, se), w1) \<Longrightarrow>
   \<exists>errors st. collect_errors (or_default rs efo) X ms w = (errors, w1)
      \<and> length errors = length ms
      \<and> sorted_py (tuple_lt meq mlt) (zip errors ms) = Inr st
      \<and> sm = map snd st \<and> se = map (\<lambda>p. asarray_item (fst p)) st"
proof -
  assume r: "sort_models_by_error rs meq mlt ms X efo w = (Inr (sm, se), w1)"
  obtain errors w1' where c: "collect_errors (or_default rs efo) X ms w = (errors, w1')"
    by (cases "collect_errors (or_default rs efo) X ms w")
  have len: "length errors = length ms"
    using collect_errors_length[of "or_default rs efo" X ms w] c by simp
  from sort_unfold[OF c, of meq mlt] r len c show ?thesis
    by (auto split: sum.splits)
qed

lemma mset_snd_zip: "length xs = length ys \<Longrightarrow> mset (map snd (zip xs ys)) = mset ys"
  by (simp add: map_snd_zip)

lemma zip_map_fst: "p \<in> set (zip (map g ms) ms) \<Longrightarrow> fst p = g (snd p)"
  by (induction ms) auto

lemma py_le_asarray_item: "py_le (asarray_item a) (asarray_item b) = py_le a b"
  by (simp add: py_le_def asarray_item_def)

lemma sort_traced:
  "or_default rs efo = traced f \<Longrightarrow>
   sort_models_by_error rs meq mlt ms X efo calls =
     (case sorted_py (tuple_lt meq mlt) (zip (map (\<lambda>m. f (m, X)) ms) ms) of
        Inl exn \<Rightarrow> (Inl exn, calls @ map (\<lambda>m. (m, X)) ms)
      | Inr st \<Rightarrow> (Inr (map snd st, map (\<lambda>p. asarray_item (fst p)) st),
                   calls @ map (\<lambda>m. (m, X)) ms))"
  using sort_unfold[of rs efo X ms calls "map (\<lambda>m. f (m, X)) ms" "calls @ map (\<lambda>m. (m, X)) ms" meq mlt]
  by (simp add: collect_errors_traced)

lemma sorted_pairs_errors:
  "sorted_py lt (zip (map g ms) ms) = Inr st \<Longrightarrow>
   map (\<lambda>p. asarray_item (fst p)) st = map (\<lambda>m. asarray_item (g m)) (map snd st)"
proof -
  assume st: "sorted_py lt (zip (map g ms) ms) = Inr st"
  have "\<forall>p\<in>set st. fst p = g (snd p)"
    using sorted_py_set[OF st] by (auto dest: zip_map_fst)
  then show ?thesis by simp
qed

lemma sort_traced_errors:
  assumes "or_default rs efo = traced f"
      and "sort_models_by_error rs meq mlt ms X efo calls = (Inr (sm, se), calls1)"
  shows "se = map (\<lambda>m. asarray_item (f (m, X))) sm"
proof -
  from sort_traced[OF assms(1), of meq mlt ms X calls] assms(2)
  obtain st where st: "sorted_py (tuple_lt meq mlt) (zip (map (\<lambda>m. f (m, X)) ms) ms) = Inr st"
    and sm: "sm = map snd st" and se: "se = map (\<lambda>p. asarray_item (fst p)) st"
    by (auto split: sum.splits)
  from sorted_pairs_errors[OF st] sm se show ?thesis by simp
qed

lemma comprehension_traced:
  "comprehension (traced f) cp_tensor kwargs cs calls =
     (map (\<lambda>c. f (cp_tensor, c, kwargs)) cs, calls @ map (\<lambda>c. (cp_tensor, c, kwargs)) cs)"
  by (induction cs arbitrary: calls) (simp_all add: traced_def)

lemma comprehension_world:
  "snd (comprehension metric cp_tensor kwargs cs w) =
     fold (\<lambda>c w'. snd (metric (cp_tensor, c, kwargs) w')) cs w"
  by (induction cs arbitrary: w) (simp_all add: case_prod_beta)

lemma fold_keeps_world:
  "\<forall>a w'. snd (metric a w') = w' \<Longrightarrow> fold (\<lambda>c w'. snd (metric (g c) w')) cs w = w"
  by (induction cs arbitrary: w) simp_all

section \<open>Tied errors\<close>





















text \<open>The equations that evaluate the functions on a concrete input.\<close>

lemmas run_simps = or_default_def get_model_with_lowest_error_def loop_body_def traced_def
  py_lt_def py_eq_def py_is_or_eq_def is_nan_def sort_models_by_error_def tuple_lt_def
  asarray_item_def identity_eq_def unordered_lt_def


text \<open>
  Two models without an ordering whose errors are NaN: when both errors are the one
  object the pairs tie and the models are compared, which raises; two NaN objects do
  not tie and the sort returns.
\<close>

lemma one_nan_object_ties:
  "sort_models_by_error (traced constant_error) identity_eq unordered_lt [''A'', ''B''] ()
     (Some (traced shared_nan)) [] = (Inl TypeError, [(''A'', ()), (''B'', ())])
   \<and> sort_models_by_error (traced constant_error) identity_eq unordered_lt [''A'', ''B''] ()
     (Some (traced fresh_nan)) []
     = (Inr ([''A'', ''B''], [Plain (NaN 0), Plain (NaN 1)]), [(''A'', ()), (''B'', ())])"
  by (simp add: run_simps shared_nan_def fresh_nan_def letter_def)

section \<open>Properties of \<open>similarity_evaluation\<close>\<close>

text \<open>
  Claim C3.  For any primary model, any list of comparison models (the empty one
  included) and any extra options: when a similarity function \<open>f\<close> is passed, whatever
  the default is, the result has the length of the comparison list and its \<open>i\<close>-th
  element is \<open>f(primary, comparison[i], **options)\<close>, in input order, and the call log
  grows by exactly one call per comparison model, in input order, each with the
  primary model and the options as they were passed; when none is passed the same
  holds of the default.  Every mutable input lives in the world: the world the
  function returns is the one the calls of the metric leave, one after the other, so a
  metric that changes nothing leaves every input as it was.
\<close>

theorem similarity_evaluation_maps_metric:
  "similarity_evaluation factor_match_score cp_tensor comparison_cp_tensors (Some (traced f)) kwargs calls
     = (map (\<lambda>c. f (cp_tensor, c, kwargs)) comparison_cp_tensors,
        calls @ map (\<lambda>c. (cp_tensor, c, kwargs)) comparison_cp_tensors)
   \<and> similarity_evaluation (traced f) cp_tensor comparison_cp_tensors None kwargs calls
     = (map (\<lambda>c. f (cp_tensor, c, kwargs)) comparison_cp_tensors,
        calls @ map (\<lambda>c. (cp_tensor, c, kwargs)) comparison_cp_tensors)
   \<and> length (map (\<lambda>c. f (cp_tensor, c, kwargs)) comparison_cp_tensors) = length comparison_cp_tensors
   \<and> snd (similarity_evaluation default_metric cp_tensor comparison_cp_tensors (Some metric) kwargs w)
     = fold (\<lambda>c w'. snd (metric (cp_tensor, c, kwargs) w')) comparison_cp_tensors w
   \<and> snd (similarity_evaluation default_metric cp_tensor comparison_cp_tensors None kwargs w)
     = fold (\<lambda>c w'. snd (default_metric (cp_tensor, c, kwargs) w')) comparison_cp_tensors w
   \<and> ((\<forall>a w'. snd (metric a w') = w') \<longrightarrow>
        snd (similarity_evaluation default_metric cp_tensor comparison_cp_tensors (Some metric) kwargs w) = w)
   \<and> ((\<forall>a w'. snd (default_metric a w') = w') \<longrightarrow>
        snd (similarity_evaluation default_metric cp_tensor comparison_cp_tensors None kwargs w) = w)"
proof (intro conjI impI)
  assume "\<forall>a w'. snd (metric a w') = w'"
  from fold_keeps_world[OF this, of "\<lambda>c. (cp_tensor, c, kwargs)"]
  show "snd (similarity_evaluation default_metric cp_tensor comparison_cp_tensors (Some metric) kwargs w) = w"
    by (simp add: similarity_evaluation_def or_default_def comprehension_world)
next
  assume "\<forall>a w'. snd (default_metric a w') = w'"
  from fold_keeps_world[OF this, of "\<lambda>c. (cp_tensor, c, kwargs)"]
  show "snd (similarity_evaluation default_metric cp_tensor comparison_cp_tensors None kwargs w) = w"
    by (simp add: similarity_evaluation_def or_default_def comprehension_world)
qed (simp_all add: similarity_evaluation_def or_default_def comprehension_traced comprehension_world)

text \<open>
  A metric that returns its second argument reproduces the comparison list, where the
  default would return the primary model; a metric that only reads the world leaves
  it as it was, where a counting one counts three calls.
\<close>

theorem similarity_evaluation_maps_metric_witness:
  "similarity_evaluation (traced first_argument) ''P'' [''A'', ''B'', ''C'']
        (Some (traced second_argument)) () []
      = ([''A'', ''B'', ''C''], [(''P'', ''A'', ()), (''P'', ''B'', ()), (''P'', ''C'', ())])
   \<and> similarity_evaluation (traced first_argument) ''P'' [''A'', ''B'', ''C''] None () []
      = ([''P'', ''P'', ''P''], [(''P'', ''A'', ()), (''P'', ''B'', ()), (''P'', ''C'', ())])
   \<and> (\<forall>a w. snd (reading_metric a w) = w)
   \<and> similarity_evaluation counting_metric ''P'' [''A'', ''B'', ''C''] (Some reading_metric) () 5
      = ([''A'', ''B'', ''C''], 5)
   \<and> similarity_evaluation reading_metric ''P'' [''A'', ''B'', ''C''] None () 0
      = ([''P'', ''P'', ''P''], 0)
   \<and> similarity_evaluation reading_metric ''P'' [''A'', ''B'', ''C''] (Some counting_metric) () 0
      = ([''P'', ''P'', ''P''], 3)"
proof -
  note inst = similarity_evaluation_maps_metric[of "traced first_argument" "''P''" "[''A'', ''B'', ''C'']"
      second_argument "()" "[]"]
  have ro: "\<forall>a w. snd (reading_metric a w) = w"
    by (simp add: reading_metric_def split: prod.splits)
  have r1: "similarity_evaluation (traced first_argument) ''P'' [''A'', ''B'', ''C'']
        (Some (traced second_argument)) () []
      = ([''A'', ''B'', ''C''], [(''P'', ''A'', ()), (''P'', ''B'', ()), (''P'', ''C'', ())])"
    using inst[THEN conjunct1] by (simp add: second_argument_def)
  have r2: "similarity_evaluation (traced first_argument) ''P'' [''A'', ''B'', ''C''] None () []
      = ([''P'', ''P'', ''P''], [(''P'', ''A'', ()), (''P'', ''B'', ()), (''P'', ''C'', ())])"
    by (simp add: similarity_evaluation_def or_default_def traced_def first_argument_def)
  have "snd (similarity_evaluation counting_metric ''P'' [''A'', ''B'', ''C''] (Some reading_metric) () 5) = 5"
    using ro similarity_evaluation_maps_metric[where metric = reading_metric
        and default_metric = counting_metric and cp_tensor = "''P''"
        and comparison_cp_tensors = "[''A'', ''B'', ''C'']" and kwargs = "()" and w = 5]
    by blast
  moreover have "fst (similarity_evaluation counting_metric ''P'' [''A'', ''B'', ''C''] (Some reading_metric) () 5)
      = [''A'', ''B'', ''C'']"
    by (simp add: similarity_evaluation_def or_default_def reading_metric_def)
  ultimately have r3: "similarity_evaluation counting_metric ''P'' [''A'', ''B'', ''C''] (Some reading_metric) () 5
      = ([''A'', ''B'', ''C''], 5)"
    by (simp add: prod_eq_iff)
  have r5: "similarity_evaluation reading_metric ''P'' [''A'', ''B'', ''C''] (Some counting_metric) () 0
      = ([''P'', ''P'', ''P''], 3)"
    by (simp add: similarity_evaluation_def or_default_def counting_metric_def)
  have r4: "similarity_evaluation reading_metric ''P'' [''A'', ''B'', ''C''] None () 0
      = ([''P'', ''P'', ''P''], 0)"
    by (simp add: similarity_evaluation_def or_default_def reading_metric_def)
  show ?thesis by (intro conjI r1 r2 ro r3 r4 r5)
qed

section \<open>Properties of \<open>get_model_with_lowest_error\<close>\<close>

text \<open>
  Claim C4.  On an empty model list the function returns \<open>(None, None, [])\<close>, whatever
  the dataset and the error function (given or defaulted), and the error function is
  never called: the world is returned as it was, and the call log of a traced error
  function stays as it was.
\<close>

theorem empty_models_give_none:
  "get_model_with_lowest_error relative_sse [] X error_function w = ((None, None, []), w)
   \<and> get_model_with_lowest_error dflt [] X (Some (traced f)) calls = ((None, None, []), calls)
   \<and> get_model_with_lowest_error (traced f) [] X None calls = ((None, None, []), calls)"
  by (simp add: get_model_with_lowest_error_def)

text \<open>
  Claim C5.  For an error function \<open>f\<close> (given, or the default when none is given),
  the third component is \<open>[f(models[0], dataset), f(models[1], dataset), ...]\<close>: it has
  the length of the model list, its \<open>i\<close>-th element is the error of the \<open>i\<close>-th
  model, and the log shows one call per model, in input order.  The empty list is
  included.
\<close>

theorem errors_align_with_models:
  assumes "or_default relative_sse error_function = traced f"
  shows "\<exists>selected index.
           get_model_with_lowest_error relative_sse cp_tensors X error_function calls =
             ((selected, index, map (\<lambda>m. f (m, X)) cp_tensors),
              calls @ map (\<lambda>m. (m, X)) cp_tensors)
           \<and> length (map (\<lambda>m. f (m, X)) cp_tensors) = length cp_tensors"
  using selector_traced[OF assms] by simp

text \<open>The models A, B, C, D with the errors 5, 2, 8, 2.\<close>

theorem errors_align_with_models_witness:
  "or_default (traced constant_error) (Some (traced known_errors)) = traced known_errors
   \<and> get_model_with_lowest_error (traced constant_error) [''A'', ''B'', ''C'', ''D''] ()
        (Some (traced known_errors)) []
      = ((Some ''B'', Some 1, [Plain (Fin 5), Plain (Fin 2), Plain (Fin 8), Plain (Fin 2)]),
         [(''A'', ()), (''B'', ()), (''C'', ()), (''D'', ())])"
  using errors_align_with_models[of "traced constant_error" "Some (traced known_errors)" known_errors
      "[''A'', ''B'', ''C'', ''D'']" "()" "[]"]
  by (simp add: or_default_def get_model_with_lowest_error_def loop_body_def traced_def
      known_errors_def py_lt_def)

text \<open>
  Claim C1, as the code has it.  The claim holds only when some computed error is
  strictly below \<open>+inf\<close>: the running best starts at \<open>np.inf\<close> and is replaced by
  strictly smaller errors only.  Then the function returns the model at an index
  \<open>i\<close> and that index, where the error at \<open>i\<close> is below \<open>+inf\<close>, no computed error
  is strictly smaller than it (it is the minimum), and no earlier error is equal to
  it (it is the first occurrence of the minimum).
\<close>

theorem lowest_error_is_first_minimum:
  fixes relative_sse :: "('m \<times> 'd, errval, 'w) callable"
  assumes "get_model_with_lowest_error relative_sse cp_tensors X error_function w =
             ((selected, index, errors), w1)"
      and "list_ex (\<lambda>e. py_lt e (Plain PosInf)) errors"
  shows "\<exists>i<length cp_tensors.
           selected = Some (cp_tensors ! i) \<and> index = Some i
           \<and> length errors = length cp_tensors
           \<and> py_lt (errors ! i) (Plain PosInf)
           \<and> (\<forall>j<length errors. \<not> py_lt (errors ! j) (errors ! i))
           \<and> (\<forall>j<i. \<not> py_eq (errors ! j) (errors ! i))"
proof -
  define s0 :: "('m, 'w) locals" where
    "s0 = \<lparr>selected_cp_tensor = None, selected_index = None, lowest_sse = Plain PosInf,
           all_sse = [], world = w\<rparr>"
  define s' where "s' = fold (loop_body (or_default relative_sse error_function) X) (enumerate 0 cp_tensors) s0"
  have sel: "selected = selected_cp_tensor s'" "index = selected_index s'"
    using selector_locals[OF assms(1)] by (simp_all add: s'_def s0_def)
  have errs: "errors = fst (collect_errors (or_default relative_sse error_function) X cp_tensors (world s0))"
    using selector_collects[OF assms(1)] by (simp add: s0_def prod_eq_iff)
  have len: "length errors = length cp_tensors"
    using errs by (simp add: collect_errors_length)
  have "\<exists>e\<in>set errors. py_lt e (lowest_sse s0)"
    using assms(2) by (simp add: list_ex_iff s0_def)
  from fold_selects_first_minimum[OF errs this s'_def] obtain i where "i < length cp_tensors"
    "selected_cp_tensor s' = Some (cp_tensors ! i)" "selected_index s' = Some (0 + i)"
    "py_lt (errors ! i) (lowest_sse s0)"
    "\<forall>j<length cp_tensors. \<not> py_lt (errors ! j) (errors ! i)"
    "\<forall>j<i. \<not> py_eq (errors ! j) (errors ! i)"
    by blast
  then show ?thesis using sel len by (auto simp add: s0_def)
qed

text \<open>
  For the errors \<open>[5, 2, 8, 2]\<close> the model at index 1 is returned, with the index 1
  and the error list.
\<close>

theorem lowest_error_is_first_minimum_witness:
  "get_model_with_lowest_error (traced constant_error) [''A'', ''B'', ''C'', ''D''] ()
     (Some (traced known_errors)) []
   = ((Some ''B'', Some 1, [Plain (Fin 5), Plain (Fin 2), Plain (Fin 8), Plain (Fin 2)]),
      [(''A'', ()), (''B'', ()), (''C'', ()), (''D'', ())])
   \<and> list_ex (\<lambda>e. py_lt e (Plain PosInf)) [Plain (Fin 5), Plain (Fin 2), Plain (Fin 8), Plain (Fin 2)]
   \<and> (\<exists>i<length [''A'', ''B'', ''C'', ''D''].
         Some ''B'' = Some ([''A'', ''B'', ''C'', ''D''] ! i) \<and> Some (1::nat) = Some i)"
proof -
  let ?errors = "[Plain (Fin 5), Plain (Fin 2), Plain (Fin 8), Plain (Fin 2)]"
  have run: "get_model_with_lowest_error (traced constant_error) [''A'', ''B'', ''C'', ''D''] ()
     (Some (traced known_errors)) []
   = ((Some ''B'', Some 1, ?errors), [(''A'', ()), (''B'', ()), (''C'', ()), (''D'', ())])"
    by (simp add: or_default_def get_model_with_lowest_error_def loop_body_def traced_def
        known_errors_def py_lt_def)
  have some: "list_ex (\<lambda>e. py_lt e (Plain PosInf)) ?errors"
    by (simp add: py_lt_def)
  from lowest_error_is_first_minimum[OF run some] run some show ?thesis by blast
qed

text \<open>
  The claim as stated fails on a non-empty list whose only error is \<open>+inf\<close>: that
  error is the minimum and stands at index 0, yet no model and no index are returned.
\<close>

theorem first_minimum_counterexample:
  "get_model_with_lowest_error (traced constant_error) [''B''] () (Some (traced diverged_errors)) []
   = ((None, None, [Plain PosInf]), [(''B'', ())])"
  by (simp add: or_default_def get_model_with_lowest_error_def loop_body_def traced_def
      diverged_errors_def py_lt_def)

text \<open>
  Claim C9.  When no computed error is strictly below \<open>+inf\<close> (each is \<open>+inf\<close> or
  NaN), the selected model and the selected index are both \<open>None\<close>, and the third
  component is still the full error list, one error per model.  The model list need
  not be empty for that, as the example after the theorem shows.
\<close>

theorem no_error_below_infinity_gives_none:
  fixes relative_sse :: "('m \<times> 'd, errval, 'w) callable"
  assumes "get_model_with_lowest_error relative_sse cp_tensors X error_function w =
             ((selected, index, errors), w1)"
      and "list_all (\<lambda>e. \<not> py_lt e (Plain PosInf)) errors"
  shows "selected = None \<and> index = None
         \<and> (errors, w1) = collect_errors (or_default relative_sse error_function) X cp_tensors w
         \<and> length errors = length cp_tensors"
proof -
  define s0 :: "('m, 'w) locals" where
    "s0 = \<lparr>selected_cp_tensor = None, selected_index = None, lowest_sse = Plain PosInf,
           all_sse = [], world = w\<rparr>"
  define s' where "s' = fold (loop_body (or_default relative_sse error_function) X) (enumerate 0 cp_tensors) s0"
  have sel: "selected = selected_cp_tensor s'" "index = selected_index s'"
    using selector_locals[OF assms(1)] by (simp_all add: s'_def s0_def)
  note coll = selector_collects[OF assms(1)]
  then have errs: "errors = fst (collect_errors (or_default relative_sse error_function) X cp_tensors (world s0))"
    by (simp add: s0_def prod_eq_iff)
  have "\<forall>e\<in>set (fst (collect_errors (or_default relative_sse error_function) X cp_tensors (world s0))).
          \<not> py_lt e (lowest_sse s0)"
    using assms(2) errs by (simp add: list_all_iff s0_def)
  from fold_keeps_selection[OF this s'_def] sel have "selected = None \<and> index = None"
    by (simp add: s0_def)
  moreover have "length errors = length cp_tensors"
    using errs by (simp add: collect_errors_length)
  ultimately show ?thesis using coll by simp
qed

text \<open>Two models whose errors are NaN and \<open>+inf\<close>.\<close>

theorem no_error_below_infinity_gives_none_witness:
  "get_model_with_lowest_error (traced constant_error) [''A'', ''B''] () (Some (traced diverged_errors)) []
     = ((None, None, [Plain (NaN 0), Plain PosInf]), [(''A'', ()), (''B'', ())])
   \<and> list_all (\<lambda>e. \<not> py_lt e (Plain PosInf)) [Plain (NaN 0), Plain PosInf]
   \<and> length [Plain (NaN 0), Plain PosInf] = length [''A'', ''B'']"
proof -
  have run: "get_model_with_lowest_error (traced constant_error) [''A'', ''B''] ()
      (Some (traced diverged_errors)) []
     = ((None, None, [Plain (NaN 0), Plain PosInf]), [(''A'', ()), (''B'', ())])"
    by (simp add: or_default_def get_model_with_lowest_error_def loop_body_def traced_def
        diverged_errors_def py_lt_def)
  have none: "list_all (\<lambda>e. \<not> py_lt e (Plain PosInf)) [Plain (NaN 0), Plain PosInf]"
    by (simp add: py_lt_def)
  from no_error_below_infinity_gives_none[OF run none] run none show ?thesis by blast
qed

section \<open>Properties of \<open>sort_models_by_error\<close>\<close>

text \<open>
  Claim C6.  The error sequence that \<open>sort_models_by_error\<close> pairs with the models
  and sorts is the third component of \<open>get_model_with_lowest_error\<close> on the same
  models, dataset and error function; both are the sequence \<open>collect_errors\<close>
  describes, and both leave the world in the same state (the same calls were made).  On
  an empty list the selector returns no errors and the ranker two empty lists.
\<close>

theorem sort_shares_error_collection:
  "(\<exists>selected index errors w1.
      get_model_with_lowest_error relative_sse cp_tensors X error_function w =
        ((selected, index, errors), w1)
      \<and> (errors, w1) = collect_errors (or_default relative_sse error_function) X cp_tensors w
      \<and> sort_models_by_error relative_sse model_eq model_lt cp_tensors X error_function w =
          (case sorted_py (tuple_lt model_eq model_lt) (zip errors cp_tensors) of
             Inl exn \<Rightarrow> (Inl exn, w1)
           | Inr sorted_tensors \<Rightarrow>
               (Inr (map snd sorted_tensors, map (\<lambda>p. asarray_item (fst p)) sorted_tensors), w1)))
   \<and> get_model_with_lowest_error relative_sse [] X error_function w = ((None, None, []), w)
   \<and> sort_models_by_error relative_sse model_eq model_lt [] X error_function w = (Inr ([], []), w)"
proof -
  obtain selected index errors w1 where
    r: "get_model_with_lowest_error relative_sse cp_tensors X error_function w =
          ((selected, index, errors), w1)"
    by (simp add: get_model_with_lowest_error_def Let_def)
  note c = selector_collects[OF r]
  from sort_unfold[OF c[symmetric], of model_eq model_lt] r c
  have "\<exists>selected index errors w1.
      get_model_with_lowest_error relative_sse cp_tensors X error_function w =
        ((selected, index, errors), w1)
      \<and> (errors, w1) = collect_errors (or_default relative_sse error_function) X cp_tensors w
      \<and> sort_models_by_error relative_sse model_eq model_lt cp_tensors X error_function w =
          (case sorted_py (tuple_lt model_eq model_lt) (zip errors cp_tensors) of
             Inl exn \<Rightarrow> (Inl exn, w1)
           | Inr sorted_tensors \<Rightarrow>
               (Inr (map snd sorted_tensors, map (\<lambda>p. asarray_item (fst p)) sorted_tensors), w1))"
    by blast
  moreover have "get_model_with_lowest_error relative_sse [] X error_function w = ((None, None, []), w)"
    by (simp add: get_model_with_lowest_error_def)
  moreover have "sort_models_by_error relative_sse model_eq model_lt [] X error_function w = (Inr ([], []), w)"
    by (simp add: sort_models_by_error_def get_model_with_lowest_error_def)
  ultimately show ?thesis by blast
qed

text \<open>
  Claim C2, as the code has it.  For an error function \<open>f\<close> and models such that no
  comparison of two \<open>(error, model)\<close> pairs raises, \<open>sort_models_by_error\<close> returns two
  lists of the length of the model list, and the \<open>i\<close>-th returned error is the error
  of the \<open>i\<close>-th returned model, as a plain float.  If moreover no error is NaN, the
  returned errors are non-decreasing.  On an empty list both lists are empty, whatever
  the error function.
\<close>

theorem sorted_errors_non_decreasing:
  assumes "or_default relative_sse error_function = traced f"
      and "never_raises (tuple_lt model_eq model_lt) (zip (map (\<lambda>m. f (m, X)) cp_tensors) cp_tensors)"
  shows "(\<exists>sorted_models sorted_errors.
            sort_models_by_error relative_sse model_eq model_lt cp_tensors X error_function calls =
              (Inr (sorted_models, sorted_errors), calls @ map (\<lambda>m. (m, X)) cp_tensors)
            \<and> length sorted_models = length cp_tensors
            \<and> length sorted_errors = length cp_tensors
            \<and> sorted_errors = map (\<lambda>m. asarray_item (f (m, X))) sorted_models
            \<and> (list_all (\<lambda>m. \<not> is_nan (f (m, X))) cp_tensors \<longrightarrow> non_decreasing sorted_errors))
         \<and> sort_models_by_error any_default model_eq model_lt [] X any_error_function w =
             (Inr ([], []), w)"
proof -
  let ?ps = "zip (map (\<lambda>m. f (m, X)) cp_tensors) cp_tensors"
  have "\<forall>p\<in>set ?ps. \<forall>q\<in>set ?ps. \<not> isl (tuple_lt model_eq model_lt p q)"
    using assms(2) by (simp add: never_raises_def list_all_iff)
  then obtain st where st: "sorted_py (tuple_lt model_eq model_lt) ?ps = Inr st"
    using sorted_py_succeeds[of ?ps "tuple_lt model_eq model_lt"] by blast
  define sm where "sm = map snd st"
  define se where "se = map (\<lambda>p. asarray_item (fst p)) st"
  have run: "sort_models_by_error relative_sse model_eq model_lt cp_tensors X error_function calls =
              (Inr (sm, se), calls @ map (\<lambda>m. (m, X)) cp_tensors)"
    using sort_traced[OF assms(1), of model_eq model_lt cp_tensors X calls] st
    by (simp add: sm_def se_def)
  have len: "length st = length cp_tensors"
    using sorted_py_mset[OF st] by (metis length_map length_zip min.idem size_mset)
  have nd: "non_decreasing se" if nonan: "list_all (\<lambda>m. \<not> is_nan (f (m, X))) cp_tensors"
  proof -
    have "\<forall>p\<in>set ?ps. \<not> is_nan (fst p)"
    proof
      fix p assume p: "p \<in> set ?ps"
      then have "fst p = f (snd p, X)" by (rule zip_map_fst)
      moreover have "snd p \<in> set cp_tensors"
        using p set_zip_rightD[of "fst p" "snd p" "map (\<lambda>m. f (m, X)) cp_tensors" cp_tensors] by simp
      ultimately show "\<not> is_nan (fst p)"
        using nonan by (simp add: list_all_iff)
    qed
    from sorted_py_sorted[OF st this] show ?thesis
      by (simp add: non_decreasing_def se_def sorted_wrt_map py_le_asarray_item)
  qed
  have "se = map (\<lambda>m. asarray_item (f (m, X))) sm"
    using sorted_pairs_errors[OF st] by (simp add: se_def sm_def)
  moreover have "length sm = length cp_tensors" "length se = length cp_tensors"
    using len by (simp_all add: sm_def se_def)
  moreover have "sort_models_by_error any_default model_eq model_lt [] X any_error_function w =
             (Inr ([], []), w)"
    by (simp add: sort_models_by_error_def get_model_with_lowest_error_def)
  ultimately show ?thesis using run nd by blast
qed

text \<open>The models A, B, C, D with the errors 30, 10, 40, 20 come back as B, D, A, C.\<close>

theorem sorted_errors_non_decreasing_witness:
  "or_default (traced constant_error) (Some (traced bare_shuffled_errors)) = traced bare_shuffled_errors
   \<and> never_raises (tuple_lt identity_eq unordered_lt)
       (zip (map (\<lambda>m. bare_shuffled_errors (m, ())) [''A'', ''B'', ''C'', ''D''])
            [''A'', ''B'', ''C'', ''D''])
   \<and> list_all (\<lambda>m. \<not> is_nan (bare_shuffled_errors (m, ()))) [''A'', ''B'', ''C'', ''D'']
   \<and> sort_models_by_error (traced constant_error) identity_eq unordered_lt
        [''A'', ''B'', ''C'', ''D''] () (Some (traced bare_shuffled_errors)) []
      = (Inr ([''B'', ''D'', ''A'', ''C''],
              [Plain (Fin 10), Plain (Fin 20), Plain (Fin 30), Plain (Fin 40)]),
         [(''A'', ()), (''B'', ()), (''C'', ()), (''D'', ())])
   \<and> non_decreasing [Plain (Fin 10), Plain (Fin 20), Plain (Fin 30), Plain (Fin 40)]"
proof -
  have h1: "or_default (traced constant_error) (Some (traced bare_shuffled_errors)) = traced bare_shuffled_errors"
    by (simp add: or_default_def)
  have h2: "list_all (\<lambda>m. \<not> is_nan (bare_shuffled_errors (m, ()))) [''A'', ''B'', ''C'', ''D'']"
    by (simp add: is_nan_def bare_shuffled_errors_def shuffled_errors_def)
  have h3: "never_raises (tuple_lt identity_eq unordered_lt)
       (zip (map (\<lambda>m. bare_shuffled_errors (m, ())) [''A'', ''B'', ''C'', ''D''])
            [''A'', ''B'', ''C'', ''D''])"
    by (simp add: never_raises_def tuple_lt_def py_is_or_eq_def is_nan_def py_eq_def py_lt_def
        identity_eq_def bare_shuffled_errors_def shuffled_errors_def)
  have run: "sort_models_by_error (traced constant_error) identity_eq unordered_lt
        [''A'', ''B'', ''C'', ''D''] () (Some (traced bare_shuffled_errors)) []
      = (Inr ([''B'', ''D'', ''A'', ''C''],
              [Plain (Fin 10), Plain (Fin 20), Plain (Fin 30), Plain (Fin 40)]),
         [(''A'', ()), (''B'', ()), (''C'', ()), (''D'', ())])"
    by (simp add: run_simps bare_shuffled_errors_def shuffled_errors_def)
  from sorted_errors_non_decreasing[OF h1 h3, of "[]", THEN conjunct1] h2
  obtain sm se where a: "sort_models_by_error (traced constant_error) identity_eq unordered_lt
        [''A'', ''B'', ''C'', ''D''] () (Some (traced bare_shuffled_errors)) []
      = (Inr (sm, se), [] @ map (\<lambda>m. (m, ())) [''A'', ''B'', ''C'', ''D''])"
    and b: "non_decreasing se"
    by blast
  from a run have "se = [Plain (Fin 10), Plain (Fin 20), Plain (Fin 30), Plain (Fin 40)]"
    by simp
  with b have nd: "non_decreasing [Plain (Fin 10), Plain (Fin 20), Plain (Fin 30), Plain (Fin 40)]"
    by simp
  show ?thesis by (intro conjI h1 h2 h3 run nd)
qed

text \<open>
  The claim as stated fails in two ways.  With the errors NaN and 1 the function
  returns the errors in that order, and \<open>NaN <= 1\<close> is false.  With two models of
  equal error that define no ordering, the function returns nothing: the comparison
  inside \<open>sorted\<close> raises \<open>TypeError\<close>.
\<close>

theorem sorted_errors_counterexample:
  "sort_models_by_error (traced constant_error) identity_eq unordered_lt [''A'', ''B''] ()
     (Some (traced nan_then_one)) []
   = (Inr ([''A'', ''B''], [Plain (NaN 0), Plain (Fin 1)]), [(''A'', ()), (''B'', ())])
   \<and> \<not> non_decreasing [Plain (NaN 0), Plain (Fin 1)]
   \<and> sort_models_by_error (traced constant_error) identity_eq unordered_lt [''A'', ''B''] ()
     (Some (traced constant_error)) []
   = (Inl TypeError, [(''A'', ()), (''B'', ())])"
  by (simp add: run_simps nan_then_one_def constant_error_def non_decreasing_def py_le_def float_le_def)

text \<open>
  Claim C10.  Whenever the sort succeeds, the returned models are a permutation of the
  input models: every model occurs in the output as often as in the input, so the
  lengths agree as well.
\<close>

theorem sorted_models_are_permutation:
  assumes "sort_models_by_error relative_sse model_eq model_lt cp_tensors X error_function w =
             (Inr (sorted_models, sorted_errors), w1)"
  shows "mset sorted_models = mset cp_tensors
         \<and> (\<forall>m. count_list sorted_models m = count_list cp_tensors m)
         \<and> length sorted_models = length cp_tensors"
proof -
  from sort_success[OF assms] obtain errors st where
    len: "length errors = length cp_tensors"
    and st: "sorted_py (tuple_lt model_eq model_lt) (zip errors cp_tensors) = Inr st"
    and sm: "sorted_models = map snd st"
    by blast
  have "mset sorted_models = mset (map snd (zip errors cp_tensors))"
    using sorted_py_mset[OF st] sm by (metis mset_map)
  then have m: "mset sorted_models = mset cp_tensors"
    using len by (simp add: mset_snd_zip)
  then have "\<forall>m. count_list sorted_models m = count_list cp_tensors m"
    by (metis count_mset)
  moreover have "length sorted_models = length cp_tensors"
    using m by (metis size_mset)
  ultimately show ?thesis using m by simp
qed

text \<open>B, D, A, C is a permutation of A, B, C, D.\<close>

theorem sorted_models_are_permutation_witness:
  "sort_models_by_error (traced constant_error) identity_eq unordered_lt
        [''A'', ''B'', ''C'', ''D''] () (Some (traced bare_shuffled_errors)) []
      = (Inr ([''B'', ''D'', ''A'', ''C''],
              [Plain (Fin 10), Plain (Fin 20), Plain (Fin 30), Plain (Fin 40)]),
         [(''A'', ()), (''B'', ()), (''C'', ()), (''D'', ())])
   \<and> mset [''B'', ''D'', ''A'', ''C''] = mset [''A'', ''B'', ''C'', ''D'']"
proof -
  have run: "sort_models_by_error (traced constant_error) identity_eq unordered_lt
        [''A'', ''B'', ''C'', ''D''] () (Some (traced bare_shuffled_errors)) []
      = (Inr ([''B'', ''D'', ''A'', ''C''],
              [Plain (Fin 10), Plain (Fin 20), Plain (Fin 30), Plain (Fin 40)]),
         [(''A'', ()), (''B'', ()), (''C'', ()), (''D'', ())])"
    by (simp add: run_simps bare_shuffled_errors_def shuffled_errors_def)
  from sorted_models_are_permutation[OF run] run show ?thesis by blast
qed

text \<open>
  Claim C8.  When the error function returns boxed scalars, \<open>Boxed (g (m, X))\<close> for
  the model \<open>m\<close>, every returned error is the plain float \<open>Plain (g (m, X))\<close> of the
  model returned at the same position, and the returned models are the input models,
  unmodified.
\<close>

theorem sorted_errors_are_plain_floats:
  assumes "or_default relative_sse error_function = traced (\<lambda>a. Boxed (g a))"
      and "sort_models_by_error relative_sse model_eq model_lt cp_tensors X error_function calls =
             (Inr (sorted_models, sorted_errors), calls1)"
  shows "sorted_errors = map (\<lambda>m. Plain (g (m, X))) sorted_models
         \<and> list_all is_plain sorted_errors
         \<and> mset sorted_models = mset cp_tensors"
proof -
  have se: "sorted_errors = map (\<lambda>m. Plain (g (m, X))) sorted_models"
    using sort_traced_errors[OF assms] by (simp add: asarray_item_def)
  then have "list_all is_plain sorted_errors"
    by (simp add: list_all_iff)
  moreover from sort_success[OF assms(2)] obtain errors st where
    len: "length errors = length cp_tensors"
    and st: "sorted_py (tuple_lt model_eq model_lt) (zip errors cp_tensors) = Inr st"
    and sm: "sorted_models = map snd st"
    by blast
  have "mset sorted_models = mset (map snd (zip errors cp_tensors))"
    using sorted_py_mset[OF st] sm by (metis mset_map)
  then have "mset sorted_models = mset cp_tensors"
    using len by (simp add: mset_snd_zip)
  ultimately show ?thesis using se by simp
qed

text \<open>The boxed errors 30, 10, 40, 20 come back as the plain floats 10, 20, 30, 40.\<close>

theorem sorted_errors_are_plain_floats_witness:
  "or_default (traced constant_error) (Some (traced boxed_shuffled_errors))
     = traced (\<lambda>a. Boxed (shuffled_errors a))
   \<and> sort_models_by_error (traced constant_error) identity_eq unordered_lt
        [''A'', ''B'', ''C'', ''D''] () (Some (traced boxed_shuffled_errors)) []
      = (Inr ([''B'', ''D'', ''A'', ''C''],
              [Plain (Fin 10), Plain (Fin 20), Plain (Fin 30), Plain (Fin 40)]),
         [(''A'', ()), (''B'', ()), (''C'', ()), (''D'', ())])
   \<and> list_all is_plain [Plain (Fin 10), Plain (Fin 20), Plain (Fin 30), Plain (Fin 40)]"
proof -
  have "boxed_shuffled_errors = (\<lambda>a. Boxed (shuffled_errors a))"
    by (rule ext) (simp add: boxed_shuffled_errors_def)
  then have h1: "or_default (traced constant_error) (Some (traced boxed_shuffled_errors))
     = traced (\<lambda>a. Boxed (shuffled_errors a))"
    by (simp add: or_default_def)
  have run: "sort_models_by_error (traced constant_error) identity_eq unordered_lt
        [''A'', ''B'', ''C'', ''D''] () (Some (traced boxed_shuffled_errors)) []
      = (Inr ([''B'', ''D'', ''A'', ''C''],
              [Plain (Fin 10), Plain (Fin 20), Plain (Fin 30), Plain (Fin 40)]),
         [(''A'', ()), (''B'', ()), (''C'', ()), (''D'', ())])"
    by (simp add: run_simps boxed_shuffled_errors_def shuffled_errors_def)
  from sorted_errors_are_plain_floats[OF h1 run]
  have "list_all is_plain [Plain (Fin 10), Plain (Fin 20), Plain (Fin 30), Plain (Fin 40)]"
    by blast
  with h1 run show ?thesis by blast
qed




end
